theory Spec2Isabelle
  imports Complex_Main
begin

section \<open>Parallel raster chunk processing: an embedding of raster_chunk_processing.py\<close>

text \<open>
  The development follows the Python source function by function. Python integers are
  \<open>int\<close>; a two-dimensional numpy array is a record of its shape and its rows; every
  exception the source (or a library call it makes) can raise is a value of \<open>error\<close>,
  and a fallible function returns \<open>error + 'a\<close> with \<open>Inl\<close> for the exception.
\<close>

subsection \<open>Errors\<close>

datatype error =
    ValueError
  | NotImplementedError
  | KeyError
  | IOError
  | RuntimeError
  | NoDataMissing
  | CalledProcessError

subsection \<open>Two-dimensional arrays\<close>

text \<open>
  A numpy array of shape \<open>(nrows, ncols)\<close>. Indexing is \<open>[row, column]\<close>, that is
  \<open>[y, x]\<close>, as the source's comments note. The shape is kept beside the rows because an
  array with no rows still has a column count (\<open>a[0:0, :]\<close>).
\<close>

record 'a ndarray =
  nrows :: nat
  ncols :: nat
  rowdata :: "'a list list"

definition mk_array :: "nat \<Rightarrow> nat \<Rightarrow> (nat \<Rightarrow> nat \<Rightarrow> 'a) \<Rightarrow> 'a ndarray" where
  "mk_array h w f =
     \<lparr>nrows = h, ncols = w, rowdata = map (\<lambda>i. map (\<lambda>j. f i j) [0..<w]) [0..<h]\<rparr>"

definition cell :: "'a ndarray \<Rightarrow> nat \<Rightarrow> nat \<Rightarrow> 'a" where
  "cell a i j = rowdata a ! i ! j"

definition size_of :: "'a ndarray \<Rightarrow> nat" where
  "size_of a = nrows a * ncols a"

text \<open>\<open>np.full((y_size, x_size), v)\<close>: a negative dimension raises \<open>ValueError\<close>.\<close>

definition np_full :: "int \<Rightarrow> int \<Rightarrow> 'a \<Rightarrow> error + 'a ndarray" where
  "np_full y_size x_size v =
     (if y_size < 0 \<or> x_size < 0 then Inl ValueError
      else Inr (mk_array (nat y_size) (nat x_size) (\<lambda>i j. v)))"

text \<open>
  Python's resolution of one bound of a slice \<open>a[start:stop]\<close> (step 1) on an axis of
  length \<open>n\<close>: a negative bound counts from the end, and every bound is clipped to
  \<open>0..n\<close>. The slice is empty when the resolved stop is not after the resolved start.
\<close>

definition slice_bound :: "int \<Rightarrow> nat \<Rightarrow> nat" where
  "slice_bound i n = (if i < 0 then nat (max (i + int n) 0) else min (nat i) n)"

definition slice_lo :: "int \<times> int \<Rightarrow> nat \<Rightarrow> nat" where
  "slice_lo s n = slice_bound (fst s) n"

definition slice_len :: "int \<times> int \<Rightarrow> nat \<Rightarrow> nat" where
  "slice_len s n = slice_bound (snd s) n - slice_bound (fst s) n"

text \<open>\<open>a[ys, xs]\<close> for two slices: the sub-array (numpy returns a view of it).\<close>

definition getitem :: "'a ndarray \<Rightarrow> int \<times> int \<Rightarrow> int \<times> int \<Rightarrow> 'a ndarray" where
  "getitem a ys xs =
     mk_array (slice_len ys (nrows a)) (slice_len xs (ncols a))
       (\<lambda>i j. cell a (slice_lo ys (nrows a) + i) (slice_lo xs (ncols a) + j))"

text \<open>
  \<open>a[ys, xs] = v\<close> for a two-dimensional \<open>v\<close>: numpy broadcasts an axis of \<open>v\<close> of
  length 1 and raises \<open>ValueError\<close> when the shapes still differ.
\<close>

definition setitem :: "'a ndarray \<Rightarrow> int \<times> int \<Rightarrow> int \<times> int \<Rightarrow> 'a ndarray \<Rightarrow> error + 'a ndarray" where
  "setitem a ys xs v =
     (let h = slice_len ys (nrows a); w = slice_len xs (ncols a);
          y0 = slice_lo ys (nrows a); x0 = slice_lo xs (ncols a)
      in if (nrows v = h \<or> nrows v = 1) \<and> (ncols v = w \<or> ncols v = 1)
         then Inr (mk_array (nrows a) (ncols a)
                (\<lambda>i j. if y0 \<le> i \<and> i < y0 + h \<and> x0 \<le> j \<and> j < x0 + w
                       then cell v (if nrows v = 1 then 0 else i - y0)
                                   (if ncols v = 1 then 0 else j - x0)
                       else cell a i j))
         else Inl ValueError)"

text \<open>
  \<open>np.putmask(a, mask, value)\<close> with a scalar value. numpy compares the number of
  cells of \<open>a\<close> and \<open>mask\<close> (not their shapes), raises \<open>ValueError\<close> when they differ,
  and otherwise walks both in row-major order.
\<close>

definition flat_cell :: "'a ndarray \<Rightarrow> nat \<Rightarrow> 'a" where
  "flat_cell a k = cell a (k div ncols a) (k mod ncols a)"

definition putmask :: "'a ndarray \<Rightarrow> bool ndarray \<Rightarrow> 'a \<Rightarrow> error + 'a ndarray" where
  "putmask a msk v =
     (if size_of msk \<noteq> size_of a then Inl ValueError
      else Inr (mk_array (nrows a) (ncols a)
             (\<lambda>i j. if flat_cell msk (i * ncols a + j) then v else cell a i j)))"

text \<open>\<open>a == v\<close> for a scalar \<open>v\<close>: the boolean array of the comparison.\<close>

definition eq_scalar :: "'a ndarray \<Rightarrow> 'a \<Rightarrow> bool ndarray" where
  "eq_scalar a v = mk_array (nrows a) (ncols a) (\<lambda>i j. cell a i j = v)"

subsection \<open>Trim and mask restoration (ProcessSuperArray, after the operation)\<close>

text \<open>
  \<^verbatim>\<open>temp_array = new_data[f2:-1*f2, f2:-1*f2]\<close>,
  \<^verbatim>\<open>read_sub_array = super_array[f2:-f2, f2:-f2]\<close>,
  \<^verbatim>\<open>np.putmask(temp_array, read_sub_array==s_nodata, s_nodata)\<close>.
\<close>

definition trim :: "int \<Rightarrow> 'a ndarray \<Rightarrow> 'a ndarray" where
  "trim f2 a = getitem a (f2, -1 * f2) (f2, -1 * f2)"

definition restore_mask :: "int \<Rightarrow> 'a \<Rightarrow> 'a ndarray \<Rightarrow> 'a ndarray \<Rightarrow> error + 'a ndarray" where
  "restore_mask f2 s_nodata super_array new_data =
     (let temp_array = trim f2 new_data;
          read_sub_array = trim f2 super_array
      in putmask temp_array (eq_scalar read_sub_array s_nodata) s_nodata)"

subsection \<open>Python's range and the break points\<close>

text \<open>
  \<open>range(start, stop, step)\<close>: a zero step raises \<open>ValueError\<close>; a positive step counts
  up while below \<open>stop\<close>, a negative one counts down while above it.
\<close>

function range_up :: "int \<Rightarrow> int \<Rightarrow> int \<Rightarrow> int list" where
  "range_up i stop step =
     (if 0 < step \<and> i < stop then i # range_up (i + step) stop step else [])"
  by pat_completeness auto
termination
  by (relation "measure (\<lambda>(i, stop, step). nat (stop - i))") auto

function range_down :: "int \<Rightarrow> int \<Rightarrow> int \<Rightarrow> int list" where
  "range_down i stop step =
     (if step < 0 \<and> stop < i then i # range_down (i + step) stop step else [])"
  by pat_completeness auto
termination
  by (relation "measure (\<lambda>(i, stop, step). nat (i - stop))") auto

declare range_up.simps [simp del]
declare range_down.simps [simp del]

definition py_range :: "int \<Rightarrow> int \<Rightarrow> int \<Rightarrow> error + int list" where
  "py_range start stop step =
     (if step = 0 then Inl ValueError
      else if 0 < step then Inr (range_up start stop step)
      else Inr (range_down start stop step))"

definition bind_err :: "error + 'a \<Rightarrow> ('a \<Rightarrow> error + 'b) \<Rightarrow> error + 'b" where
  "bind_err m f = (case m of Inl e \<Rightarrow> Inl e | Inr v \<Rightarrow> f v)"

text \<open>
  \<^verbatim>\<open>row_splits = list(range(0, rows, chunk_size)); row_splits.append(rows)\<close>
  (and the same for the columns).
\<close>

definition splits :: "int \<Rightarrow> int \<Rightarrow> error + int list" where
  "splits n chunk_size = bind_err (py_range 0 n chunk_size) (\<lambda>bs. Inr (bs @ [n]))"

subsection \<open>Chunks\<close>

text \<open>
  The \<open>Chunk\<close> object handed to each worker. Its fields carry the prefix \<open>c_\<close>, since
  the functions below use the source's local variable names (\<open>x_start\<close>, \<open>f2\<close>,
  \<open>rows\<close>, ...). The file paths, the cell size, the verbosity flag and the start time
  are left out: no index computation reads them. Option values are integers;
  \<open>filter_size\<close> is the only option that takes part in index arithmetic.
\<close>

record 'a chunk =
  c_tile :: string
  c_progress :: nat
  c_total_chunks :: nat
  c_x_start :: int
  c_y_start :: int
  c_x_end :: int
  c_y_end :: int
  c_s_nodata :: 'a
  c_f2 :: int
  c_rows :: int
  c_cols :: int
  c_method :: string
  c_options :: "string \<rightharpoonup> int"

text \<open>\<open>"{}".format(n)\<close> for a natural number: its decimal digits.\<close>

function str_nat :: "nat \<Rightarrow> string" where
  "str_nat n =
     (if n < 10 then [''0123456789'' ! n]
      else str_nat (n div 10) @ [''0123456789'' ! (n mod 10)])"
  by pat_completeness auto
termination
  by (relation "measure id") auto

declare str_nat.simps [simp del]

subsection \<open>The super array: geometry, read and paste (ProcessSuperArray, lines 393-482)\<close>

record geometry =
  g_x_size :: int
  g_y_size :: int
  g_read_x_off :: int
  g_read_y_off :: int
  g_read_x_size :: int
  g_read_y_size :: int
  g_sa_x_start :: int
  g_sa_x_end :: int
  g_sa_y_start :: int
  g_sa_y_end :: int

text \<open>
  The edge logic, one axis at a time as the source has it: first the window that is
  read and the slice that receives it for \<open>x\<close>, then for \<open>y\<close>. Each axis tests
  "under" first and "over" only otherwise (\<open>if ... elif ...\<close>).
\<close>

definition super_array_calc :: "int \<Rightarrow> int \<Rightarrow> int \<Rightarrow> int \<Rightarrow> int \<Rightarrow> int \<Rightarrow> int \<Rightarrow> geometry" where
  "super_array_calc x_start y_start x_end y_end f2 rows cols =
     (let x_size = x_end - x_start + 2 * f2;
          y_size = y_end - y_start + 2 * f2;
          x_off = x_start - f2;
          y_off = y_start - f2;
          (read_x_off, read_x_size, sa_x_start, sa_x_end) =
             (if x_off < 0 then (0, x_size - f2, f2, x_size)
              else if x_off + x_size > cols then (x_off, x_size - f2, 0, -1 * f2)
              else (x_off, x_size, 0, x_size));
          (read_y_off, read_y_size, sa_y_start, sa_y_end) =
             (if y_off < 0 then (0, y_size - f2, f2, y_size)
              else if y_off + y_size > rows then (y_off, y_size - f2, 0, -1 * f2)
              else (y_off, y_size, 0, y_size))
      in \<lparr>g_x_size = x_size, g_y_size = y_size,
          g_read_x_off = read_x_off, g_read_y_off = read_y_off,
          g_read_x_size = read_x_size, g_read_y_size = read_y_size,
          g_sa_x_start = sa_x_start, g_sa_x_end = sa_x_end,
          g_sa_y_start = sa_y_start, g_sa_y_end = sa_y_end\<rparr>)"

text \<open>
  The raster library's windowed read, \<open>ReadAsArray(xoff, yoff, xsize, ysize)\<close>, on a
  source band given as the array of its cells. A negative size cannot be allocated; a
  window with cells that is not inside the raster is refused (the run enables the
  library's exceptions, line 636), and the run fails.
\<close>

definition window_in_bounds :: "'a ndarray \<Rightarrow> int \<Rightarrow> int \<Rightarrow> int \<Rightarrow> int \<Rightarrow> bool" where
  "window_in_bounds band xoff yoff xsize ysize =
     (0 \<le> xoff \<and> 0 \<le> yoff \<and> xoff + xsize \<le> int (ncols band) \<and> yoff + ysize \<le> int (nrows band))"

definition ReadAsArray :: "'a ndarray \<Rightarrow> int \<Rightarrow> int \<Rightarrow> int \<Rightarrow> int \<Rightarrow> error + 'a ndarray" where
  "ReadAsArray band xoff yoff xsize ysize =
     (if xsize < 0 \<or> ysize < 0 then Inl ValueError
      else if 1 \<le> xsize \<and> 1 \<le> ysize \<and> \<not> window_in_bounds band xoff yoff xsize ysize
      then Inl RuntimeError
      else Inr (mk_array (nat ysize) (nat xsize)
             (\<lambda>i j. cell band (nat yoff + i) (nat xoff + j))))"

text \<open>
  Lines 460-482: the read, the buffer full of the no-data value, and the paste
  \<^verbatim>\<open>super_array[sa_y_start:sa_y_end, sa_x_start:sa_x_end] = read_array\<close>.
\<close>

definition chunk_geometry :: "'a chunk \<Rightarrow> geometry" where
  "chunk_geometry chunk_info =
     super_array_calc (c_x_start chunk_info) (c_y_start chunk_info)
       (c_x_end chunk_info) (c_y_end chunk_info) (c_f2 chunk_info)
       (c_rows chunk_info) (c_cols chunk_info)"

definition populate :: "'a ndarray \<Rightarrow> 'a chunk \<Rightarrow> error + 'a ndarray" where
  "populate band chunk_info =
     (let g = chunk_geometry chunk_info
      in bind_err (ReadAsArray band (g_read_x_off g) (g_read_y_off g)
                     (g_read_x_size g) (g_read_y_size g)) (\<lambda>read_array.
         bind_err (np_full (g_y_size g) (g_x_size g) (c_s_nodata chunk_info)) (\<lambda>super_array.
         setitem super_array (g_sa_y_start g, g_sa_y_end g) (g_sa_x_start g, g_sa_x_end g)
           read_array)))"

subsection \<open>The operations and their dispatch (lines 484-503)\<close>

text \<open>
  The numeric kernels are parameters of the model: each takes the super array and its
  options and returns an array or raises. They are pure functions of their arguments;
  what \<open>mdenoise\<close> does to its temporary files is modelled on its own further down.
  \<open>skymodel\<close>'s luminance lines are part of its kernel.
\<close>

record 'a kernels =
  k_blur_gauss :: "'a ndarray \<Rightarrow> int \<Rightarrow> error + 'a ndarray"
  k_mdenoise :: "'a ndarray \<Rightarrow> int \<Rightarrow> int \<Rightarrow> int \<Rightarrow> string \<Rightarrow> error + 'a ndarray"
  k_clahe :: "'a ndarray \<Rightarrow> int \<Rightarrow> int \<Rightarrow> error + 'a ndarray"
  k_TPI :: "'a ndarray \<Rightarrow> int \<Rightarrow> error + 'a ndarray"
  k_blur_mean :: "'a ndarray \<Rightarrow> int \<Rightarrow> error + 'a ndarray"
  k_hillshade :: "'a ndarray \<Rightarrow> int \<Rightarrow> int \<Rightarrow> error + 'a ndarray"
  k_skymodel :: "'a ndarray \<Rightarrow> error + 'a ndarray"

text \<open>\<open>options[key]\<close>: a missing key raises \<open>KeyError\<close>.\<close>

definition opt :: "(string \<rightharpoonup> int) \<Rightarrow> string \<Rightarrow> error + int" where
  "opt options key = (case options key of None \<Rightarrow> Inl KeyError | Some v \<Rightarrow> Inr v)"

definition run_method :: "'a kernels \<Rightarrow> string \<Rightarrow> (string \<rightharpoonup> int) \<Rightarrow> string \<Rightarrow> 'a ndarray \<Rightarrow> error + 'a ndarray" where
  "run_method ks method options tile super_array =
     (if method = ''blur_gauss'' then
        bind_err (opt options ''filter_size'') (\<lambda>fs. k_blur_gauss ks super_array fs)
      else if method = ''mdenoise'' then
        bind_err (opt options ''t'') (\<lambda>t. bind_err (opt options ''n'') (\<lambda>n.
        bind_err (opt options ''v'') (\<lambda>v. k_mdenoise ks super_array t n v tile)))
      else if method = ''clahe'' then
        bind_err (opt options ''filter_size'') (\<lambda>fs.
        bind_err (opt options ''clip_limit'') (\<lambda>cl. k_clahe ks super_array fs cl))
      else if method = ''TPI'' then
        bind_err (opt options ''filter_size'') (\<lambda>fs. k_TPI ks super_array fs)
      else if method = ''blur_mean'' then
        bind_err (opt options ''filter_size'') (\<lambda>fs. k_blur_mean ks super_array fs)
      else if method = ''hillshade'' then
        bind_err (opt options ''az'') (\<lambda>az.
        bind_err (opt options ''alt'') (\<lambda>alt. k_hillshade ks super_array az alt))
      else if method = ''skymodel'' then k_skymodel ks super_array
      else Inl NotImplementedError)"

subsection \<open>The write and the whole tile (lines 505-527)\<close>

text \<open>
  The target band holds \<open>None\<close> in a cell that no tile has written since the file was
  created. \<open>WriteArray(array, xoff, yoff)\<close>: the library's wrapper raises
  \<open>ValueError\<close> when the array reaches past the right or bottom edge; a block without
  cells is then skipped; a negative offset is refused.
\<close>

definition WriteArray :: "'a option ndarray \<Rightarrow> 'a ndarray \<Rightarrow> int \<Rightarrow> int \<Rightarrow> error + 'a option ndarray" where
  "WriteArray t_band arr xoff yoff =
     (if int (ncols arr) + xoff > int (ncols t_band) \<or> int (nrows arr) + yoff > int (nrows t_band)
      then Inl ValueError
      else if ncols arr < 1 \<or> nrows arr < 1 then Inr t_band
      else if xoff < 0 \<or> yoff < 0 then Inl RuntimeError
      else Inr (mk_array (nrows t_band) (ncols t_band)
             (\<lambda>i j. if nat yoff \<le> i \<and> i < nat yoff + nrows arr \<and>
                       nat xoff \<le> j \<and> j < nat xoff + ncols arr
                    then Some (cell arr (i - nat yoff) (j - nat xoff))
                    else cell t_band i j)))"

definition ProcessSuperArray :: "'a kernels \<Rightarrow> 'a ndarray \<Rightarrow> 'a chunk \<Rightarrow> 'a option ndarray \<Rightarrow> error + 'a option ndarray" where
  "ProcessSuperArray ks band chunk_info t_band =
     bind_err (populate band chunk_info) (\<lambda>super_array.
     bind_err (run_method ks (c_method chunk_info) (c_options chunk_info) (c_tile chunk_info)
                 super_array) (\<lambda>new_data.
     bind_err (restore_mask (c_f2 chunk_info) (c_s_nodata chunk_info) super_array new_data)
       (\<lambda>temp_array.
     WriteArray t_band temp_array (c_x_start chunk_info) (c_y_start chunk_info))))"

subsection \<open>ParallelRCP (lines 550-808)\<close>

text \<open>\<^verbatim>\<open>for opt in opts: if opt not in options: raise ValueError\<close>\<close>

fun require :: "(string \<rightharpoonup> int) \<Rightarrow> string list \<Rightarrow> error + unit" where
  "require options [] = Inr ()"
| "require options (k # ks) = (if options k = None then Inl ValueError else require options ks)"

text \<open>
  \<^verbatim>\<open>if overlap < 2 * options["filter_size"]: overlap = 2 * options["filter_size"]\<close>
\<close>

definition check_overlap :: "(string \<rightharpoonup> int) \<Rightarrow> int \<Rightarrow> error + int" where
  "check_overlap options overlap =
     bind_err (opt options ''filter_size'') (\<lambda>fs.
       Inr (if overlap < 2 * fs then 2 * fs else overlap))"

text \<open>The method name and option checks (lines 574-634); the result is the overlap in force.\<close>

definition method_checks :: "string \<Rightarrow> (string \<rightharpoonup> int) \<Rightarrow> int \<Rightarrow> error + int" where
  "method_checks method options overlap =
     (if method = ''blur_gauss'' then
        bind_err (require options [''filter_size'']) (\<lambda>_. check_overlap options overlap)
      else if method = ''mdenoise'' then
        bind_err (require options [''t'', ''n'', ''v'']) (\<lambda>_. Inr overlap)
      else if method = ''clahe'' then
        bind_err (require options [''filter_size'', ''clip_limit''])
          (\<lambda>_. check_overlap options overlap)
      else if method = ''TPI'' then
        bind_err (require options [''filter_size'']) (\<lambda>_. check_overlap options overlap)
      else if method = ''blur_mean'' then
        bind_err (require options [''filter_size'']) (\<lambda>_. check_overlap options overlap)
      else if method = ''hillshade'' then
        bind_err (require options [''alt'', ''az'']) (\<lambda>_. Inr overlap)
      else if method = ''skymodel'' then
        bind_err (require options [''lum_file'']) (\<lambda>_. Inr overlap)
      else Inl NotImplementedError)"

text \<open>
  The source raster as the run sees it: its band and its no-data value, if one is set.
\<close>

record 'a raster =
  r_band :: "'a ndarray"
  r_nodata :: "'a option"

text \<open>
  Lines 735-771: one chunk per pair of consecutive row breaks and consecutive column
  breaks, rows outermost. \<open>progress\<close> is the running count of the two loops.
\<close>

definition make_chunks :: "int list \<Rightarrow> int list \<Rightarrow> 'a \<Rightarrow> int \<Rightarrow> int \<Rightarrow> int \<Rightarrow> string \<Rightarrow> (string \<rightharpoonup> int) \<Rightarrow> 'a chunk list" where
  "make_chunks row_splits col_splits s_nodata f2 rows cols method options =
     concat (map (\<lambda>i. map (\<lambda>j.
       \<lparr>c_tile = str_nat i @ ''-'' @ str_nat j,
        c_progress = i * (length col_splits - 1) + j + 1,
        c_total_chunks = (length row_splits - 1) * (length col_splits - 1),
        c_x_start = col_splits ! j,
        c_y_start = row_splits ! i,
        c_x_end = col_splits ! (j + 1),
        c_y_end = row_splits ! (i + 1),
        c_s_nodata = s_nodata,
        c_f2 = f2,
        c_rows = rows,
        c_cols = cols,
        c_method = method,
        c_options = options\<rparr>)
       [0..<length col_splits - 1]) [0..<length row_splits - 1])"

text \<open>
  \<open>pool.map(ProcessSuperArray, iterables, chunksize=1)\<close>. Every read and every write
  of a worker happens under the one lock, so a run of the pool is a sequence of whole
  tiles; the model takes them in list order and stops at the first exception.
\<close>

fun pool_map :: "('c \<Rightarrow> 's \<Rightarrow> error + 's) \<Rightarrow> 'c list \<Rightarrow> 's \<Rightarrow> error + 's" where
  "pool_map f [] s = Inr s"
| "pool_map f (c # cs) s = (case f c s of Inl e \<Rightarrow> Inl e | Inr s' \<Rightarrow> pool_map f cs s')"

text \<open>
  The chunks a run builds: \<open>None\<close> when the run takes the \<open>else: pass\<close> branch of
  line 705 and builds none.
\<close>

definition iterables :: "'a raster \<Rightarrow> bool \<Rightarrow> int \<Rightarrow> int \<Rightarrow> string \<Rightarrow> (string \<rightharpoonup> int) \<Rightarrow> error + 'a chunk list option" where
  "iterables src out_exists chunk_size overlap0 method options =
     bind_err (method_checks method options overlap0) (\<lambda>overlap.
       case r_nodata src of
         None \<Rightarrow> Inl NoDataMissing
       | Some s_nodata \<Rightarrow>
           if out_exists then Inl IOError
           else
             let rows = int (nrows (r_band src)); cols = int (ncols (r_band src)) in
             if rows > chunk_size \<and> cols > chunk_size then
               bind_err (splits rows chunk_size) (\<lambda>row_splits.
               bind_err (splits cols chunk_size) (\<lambda>col_splits.
                 let f2 = 2 * overlap in
                 Inr (Some (make_chunks row_splits col_splits s_nodata f2 rows cols
                              method options))))
             else Inr None)"

text \<open>
  The run: the target is created with the source's dimensions (lines 677-685) and then
  receives the tiles. The result is the target band, where the source returns the
  elapsed time.
\<close>

definition ParallelRCP :: "'a kernels \<Rightarrow> 'a raster \<Rightarrow> bool \<Rightarrow> int \<Rightarrow> int \<Rightarrow> string \<Rightarrow> (string \<rightharpoonup> int) \<Rightarrow> error + 'a option ndarray" where
  "ParallelRCP ks src out_exists chunk_size overlap method options =
     bind_err (iterables src out_exists chunk_size overlap method options) (\<lambda>its.
       let t_band = mk_array (nrows (r_band src)) (ncols (r_band src)) (\<lambda>i j. None) in
       case its of
         None \<Rightarrow> Inr t_band
       | Some chunks \<Rightarrow> pool_map (ProcessSuperArray ks (r_band src)) chunks t_band)"

subsection \<open>mdenoise (lines 166-240)\<close>

text \<open>
  Cell values are real numbers here, since the function takes the mean of its input.
  The world of \<open>mdenoise\<close> is the content of the temporary directory (a grid per
  \<open>.asc\<close> file) and the number of times the external executable has been started. The
  executable is a parameter: from its arguments and the files it finds, an exit code
  and the files it leaves.
\<close>

record world =
  w_files :: "string \<rightharpoonup> real ndarray"
  w_exe_calls :: nat

type_synonym executable =
  "real \<Rightarrow> int \<Rightarrow> int \<Rightarrow> string \<Rightarrow> string \<Rightarrow> (string \<rightharpoonup> real ndarray) \<Rightarrow> int \<times> (string \<rightharpoonup> real ndarray)"

text \<open>\<open>in_array.mean()\<close>: the mean of all cells; of no cells it is not a number (\<open>None\<close>).\<close>

definition mean :: "real ndarray \<Rightarrow> real option" where
  "mean a =
     (if size_of a = 0 then None
      else Some (sum_list (concat (rowdata a)) / real (size_of a)))"

definition path_join :: "string \<Rightarrow> string \<Rightarrow> string" where
  "path_join dir name = dir @ ''/'' @ name"

text \<open>
  \<^verbatim>\<open>with contextlib.suppress(FileNotFoundError): os.remove(temp_s_path); os.remove(temp_t_path)\<close>:
  a missing first file ends the block, so the second removal is not attempted.
\<close>

definition remove_temp :: "string \<Rightarrow> string \<Rightarrow> (string \<rightharpoonup> 'b) \<Rightarrow> (string \<rightharpoonup> 'b)" where
  "remove_temp temp_s_path temp_t_path fs =
     (if fs temp_s_path = None then fs
      else let fs1 = fs(temp_s_path := None)
           in if fs1 temp_t_path = None then fs1 else fs1(temp_t_path := None))"

text \<open>The two temporary paths (lines 207-214): named after the tile if there is one, else after the process id.\<close>

definition temp_paths :: "string \<Rightarrow> nat \<Rightarrow> string option \<Rightarrow> string \<times> string" where
  "temp_paths temp_dir pid tile =
     (let differentiator = (case tile of
                              None \<Rightarrow> str_nat pid
                            | Some name \<Rightarrow> if name \<noteq> [] then name else str_nat pid)
      in (path_join temp_dir (''mesh_source_'' @ differentiator @ ''.asc''),
          path_join temp_dir (''mesh_target_'' @ differentiator @ ''.asc'')))"

definition mdenoise :: "executable \<Rightarrow> string \<Rightarrow> nat \<Rightarrow> real \<Rightarrow> real ndarray \<Rightarrow> real \<Rightarrow> int \<Rightarrow> int \<Rightarrow> string option \<Rightarrow> world \<Rightarrow> (error + real ndarray) \<times> world" where
  "mdenoise exe temp_dir pid s_nodata in_array t n v tile w =
     (if mean in_array = Some s_nodata then (Inr in_array, w)
      else
        let (temp_s_path, temp_t_path) = temp_paths temp_dir pid tile;
            written = (w_files w)(temp_s_path \<mapsto> in_array);
            (exit_code, left) = exe t n v temp_s_path temp_t_path written;
            w1 = \<lparr>w_files = left, w_exe_calls = w_exe_calls w + 1\<rparr>
        in if exit_code \<noteq> 0 then (Inl CalledProcessError, w1)
           else case left temp_t_path of
                  None \<Rightarrow> (Inl RuntimeError, w1)
                | Some mdenoised_array \<Rightarrow>
                    (Inr mdenoised_array,
                     w1\<lparr>w_files := remove_temp temp_s_path temp_t_path left\<rparr>))"

subsection \<open>Concrete inputs used below\<close>

text \<open>A 3 by 4 super array for halo 1 whose inner cell \<open>(1, 1)\<close> is no-data, and a kernel output of 7 everywhere.\<close>

definition ex_super :: "int ndarray" where
  "ex_super = mk_array 3 4 (\<lambda>i j. if i = 1 \<and> j = 1 then - 9999 else 5)"

definition ex_new :: "int ndarray" where
  "ex_new = mk_array 3 4 (\<lambda>i j. 7)"

text \<open>The raster cells of a chunk, as \<open>(row, column)\<close> pairs: the half-open rectangle of its bounds.\<close>

definition chunk_cells :: "'a chunk \<Rightarrow> (int \<times> int) set" where
  "chunk_cells c = {c_y_start c..<c_y_end c} \<times> {c_x_start c..<c_x_end c}"

text \<open>A 3 by 3 raster of value 5 with no-data value -9999, and options for the mean blur.\<close>

definition ex_raster3 :: "int raster" where
  "ex_raster3 = \<lparr>r_band = mk_array 3 3 (\<lambda>i j. 5), r_nodata = Some (- 9999)\<rparr>"

definition ex_opts :: "string \<rightharpoonup> int" where
  "ex_opts = [''filter_size'' \<mapsto> 1]"

text \<open>Kernels that return their input, options for \<open>mdenoise\<close>, a 5 by 5 raster and its first chunk for chunk size 4 and overlap 1.\<close>

definition id_kernels :: "'a kernels" where
  "id_kernels =
     \<lparr>k_blur_gauss = (\<lambda>a fs. Inr a),
      k_mdenoise = (\<lambda>a t n v tile. Inr a),
      k_clahe = (\<lambda>a fs cl. Inr a),
      k_TPI = (\<lambda>a fs. Inr a),
      k_blur_mean = (\<lambda>a fs. Inr a),
      k_hillshade = (\<lambda>a az alt. Inr a),
      k_skymodel = (\<lambda>a. Inr a)\<rparr>"

definition ex_md_opts :: "string \<rightharpoonup> int" where
  "ex_md_opts = [''t'' \<mapsto> 1, ''n'' \<mapsto> 1, ''v'' \<mapsto> 1]"

definition ex_raster5 :: "int raster" where
  "ex_raster5 = \<lparr>r_band = mk_array 5 5 (\<lambda>i j. int (5 * i + j)), r_nodata = Some (- 9999)\<rparr>"

definition ex_chunk5 :: "int chunk" where
  "ex_chunk5 =
     \<lparr>c_tile = ''0-0'', c_progress = 1, c_total_chunks = 4,
      c_x_start = 0, c_y_start = 0, c_x_end = 4, c_y_end = 4,
      c_s_nodata = - 9999, c_f2 = 2, c_rows = 5, c_cols = 5,
      c_method = ''mdenoise'', c_options = ex_md_opts\<rparr>"

text \<open>An executable that exits with 1, one that copies its input grid to its output path, a grid of two cells and an empty temporary directory.\<close>

definition exe_fail :: executable where
  "exe_fail t n v s_path t_path fs = (1, fs)"

definition exe_copy :: executable where
  "exe_copy t n v s_path t_path fs =
     (case fs s_path of None \<Rightarrow> (1, fs) | Some a \<Rightarrow> (0, fs(t_path \<mapsto> a)))"

definition ex_grid :: "real ndarray" where
  "ex_grid = \<lparr>nrows = 1, ncols = 2, rowdata = [[- 1, 1]]\<rparr>"

definition ex_world :: world where
  "ex_world = \<lparr>w_files = Map.empty, w_exe_calls = 0\<rparr>"

text \<open>A 4 by 4 raster whose cell \<open>(i, j)\<close> holds \<open>4 i + j\<close>, and its first chunk for chunk size 2 and overlap 1.\<close>

definition ex_raster4 :: "int raster" where
  "ex_raster4 = \<lparr>r_band = mk_array 4 4 (\<lambda>i j. int (4 * i + j)), r_nodata = Some (- 9999)\<rparr>"

definition ex_chunk4 :: "int chunk" where
  "ex_chunk4 =
     \<lparr>c_tile = ''0-0'', c_progress = 1, c_total_chunks = 4,
      c_x_start = 0, c_y_start = 0, c_x_end = 2, c_y_end = 2,
      c_s_nodata = - 9999, c_f2 = 2, c_rows = 4, c_cols = 4,
      c_method = ''mdenoise'', c_options = ex_md_opts\<rparr>"

text \<open>
  Kernels whose \<open>mdenoise\<close> ignores the padded shape: one returns a 5 by 8 array,
  the other a 7 by 6 array, of value 7.
\<close>

definition wide_kernels :: "int kernels" where
  "wide_kernels = id_kernels\<lparr>k_mdenoise := (\<lambda>a t n v tile. Inr (mk_array 5 8 (\<lambda>i j. 7)))\<rparr>"

definition tall_kernels :: "int kernels" where
  "tall_kernels = id_kernels\<lparr>k_mdenoise := (\<lambda>a t n v tile. Inr (mk_array 7 6 (\<lambda>i j. 7)))\<rparr>"

subsection \<open>Basic facts about arrays\<close>

lemma nrows_mk_array: "nrows (mk_array h w f) = h"
  by (simp add: mk_array_def)

lemma ncols_mk_array: "ncols (mk_array h w f) = w"
  by (simp add: mk_array_def)

lemma cell_mk_array: "i < h \<Longrightarrow> j < w \<Longrightarrow> cell (mk_array h w f) i j = f i j"
  by (simp add: mk_array_def cell_def)

lemma flat_cell_row_major:
  assumes "j < ncols a"
  shows "flat_cell a (i * ncols a + j) = cell a i j"
  using assms by (simp add: flat_cell_def)


lemma nrows_trim: "nrows (trim f2 a) = slice_len (f2, -1 * f2) (nrows a)"
  by (simp add: trim_def getitem_def nrows_mk_array)

lemma ncols_trim: "ncols (trim f2 a) = slice_len (f2, -1 * f2) (ncols a)"
  by (simp add: trim_def getitem_def ncols_mk_array)

lemma cell_eq_scalar:
  "i < nrows a \<Longrightarrow> j < ncols a \<Longrightarrow> cell (eq_scalar a v) i j = (cell a i j = v)"
  by (simp add: eq_scalar_def cell_mk_array)

lemma putmask_same_shape:
  assumes "nrows msk = nrows a" and "ncols msk = ncols a"
  shows "\<exists>r. putmask a msk v = Inr r \<and> nrows r = nrows a \<and> ncols r = ncols a \<and>
           (\<forall>i<nrows a. \<forall>j<ncols a. cell r i j = (if cell msk i j then v else cell a i j))"
  using assms
  by (simp add: putmask_def size_of_def nrows_mk_array ncols_mk_array cell_mk_array
        flat_cell_def)

section \<open>No-data mask restoration\<close>

text \<open>
  Claim C4. Whatever the operation returned, as long as it has the shape of the padded
  input: the post-processing step succeeds, its result has the shape of the input
  trimmed by \<open>f2\<close> on each side, and each of its cells is the no-data value where the
  trimmed input cell equals \<open>s_nodata\<close> and the operation's (trimmed) value everywhere
  else.
\<close>

theorem restore_mask_cells:
  assumes "nrows new_data = nrows super_array" and "ncols new_data = ncols super_array"
  shows "\<exists>temp_array. restore_mask f2 s_nodata super_array new_data = Inr temp_array
           \<and> nrows temp_array = nrows (trim f2 super_array)
           \<and> ncols temp_array = ncols (trim f2 super_array)
           \<and> (\<forall>i<nrows temp_array. \<forall>j<ncols temp_array.
                 cell temp_array i j =
                   (if cell (trim f2 super_array) i j = s_nodata then s_nodata
                    else cell (trim f2 new_data) i j))"
proof -
  let ?t = "trim f2 new_data" and ?r = "trim f2 super_array"
  have sh: "nrows (eq_scalar ?r s_nodata) = nrows ?t" "ncols (eq_scalar ?r s_nodata) = ncols ?t"
    using assms by (simp_all add: eq_scalar_def nrows_mk_array ncols_mk_array nrows_trim ncols_trim)
  have same: "nrows ?r = nrows ?t" "ncols ?r = ncols ?t"
    using assms by (simp_all add: nrows_trim ncols_trim)
  from putmask_same_shape[OF sh, of s_nodata]
  obtain r where r: "putmask ?t (eq_scalar ?r s_nodata) s_nodata = Inr r"
      "nrows r = nrows ?t" "ncols r = ncols ?t"
      "\<forall>i<nrows ?t. \<forall>j<ncols ?t. cell r i j =
          (if cell (eq_scalar ?r s_nodata) i j then s_nodata else cell ?t i j)"
    by blast
  have "restore_mask f2 s_nodata super_array new_data = Inr r"
    using r(1) by (simp add: restore_mask_def)
  moreover have "\<forall>i<nrows r. \<forall>j<ncols r. cell r i j =
      (if cell ?r i j = s_nodata then s_nodata else cell ?t i j)"
    using r(2,3,4) same by (simp add: cell_eq_scalar)
  ultimately show ?thesis using r(2,3) same by simp
qed

theorem restore_mask_cells_witness:
  "nrows ex_new = nrows ex_super \<and> ncols ex_new = ncols ex_super
   \<and> trim 1 ex_super = \<lparr>nrows = 1, ncols = 2, rowdata = [[- 9999, 5]]\<rparr>
   \<and> restore_mask 1 (- 9999) ex_super ex_new
       = Inr \<lparr>nrows = 1, ncols = 2, rowdata = [[- 9999, 7]]\<rparr>"
proof -
  have sh: "nrows ex_new = nrows ex_super" "ncols ex_new = ncols ex_super"
    by (simp_all add: ex_new_def ex_super_def nrows_mk_array ncols_mk_array)
  have inp: "trim 1 ex_super = \<lparr>nrows = 1, ncols = 2, rowdata = [[- 9999, 5]]\<rparr>"
    by code_simp
  have run: "restore_mask 1 (- 9999) ex_super ex_new
               = Inr \<lparr>nrows = 1, ncols = 2, rowdata = [[- 9999, 7]]\<rparr>"
    by code_simp
  from restore_mask_cells[OF sh, of 1 "- 9999"] run inp sh show ?thesis by simp
qed

subsection \<open>Break points and the grid of chunks\<close>

lemma range_up_step:
  "0 < step \<Longrightarrow> i < stop \<Longrightarrow> range_up i stop step = i # range_up (i + step) stop step"
  by (subst range_up.simps) simp

lemma range_up_stop: "\<not> (0 < step \<and> i < stop) \<Longrightarrow> range_up i stop step = []"
  by (subst range_up.simps) simp

lemma range_up_bounds: "x \<in> set (range_up i stop step) \<Longrightarrow> i \<le> x \<and> x < stop"
proof (induction i stop step rule: range_up.induct)
  case (1 i stop step)
  show ?case
  proof (cases "0 < step \<and> i < stop")
    case True
    with "1.prems" have "x = i \<or> x \<in> set (range_up (i + step) stop step)"
      by (simp add: range_up_step)
    with True "1.IH" show ?thesis by auto
  next
    case False
    with "1.prems" show ?thesis by (simp add: range_up_stop)
  qed
qed

lemma range_up_increasing: "sorted_wrt (<) (range_up i stop step)"
proof (induction i stop step rule: range_up.induct)
  case (1 i stop step)
  show ?case
  proof (cases "0 < step \<and> i < stop")
    case True
    have "\<forall>x \<in> set (range_up (i + step) stop step). i < x"
      using range_up_bounds[of _ "i + step" stop step] True by fastforce
    with True "1.IH" show ?thesis by (simp add: range_up_step)
  next
    case False
    then show ?thesis by (simp add: range_up_stop)
  qed
qed

lemma splits_positive:
  assumes "0 < chunk_size" and "0 < n"
  shows "\<exists>bs. splits n chunk_size = Inr bs \<and> sorted_wrt (<) bs \<and> 2 \<le> length bs
              \<and> bs ! 0 = 0 \<and> last bs = n"
proof -
  let ?r = "range_up 0 n chunk_size"
  have s: "splits n chunk_size = Inr (?r @ [n])"
    using assms by (simp add: splits_def py_range_def bind_err_def)
  have hd: "?r = 0 # range_up (0 + chunk_size) n chunk_size"
    by (rule range_up_step[OF assms])
  have "sorted_wrt (<) (?r @ [n])"
    using range_up_increasing[of 0 n chunk_size] range_up_bounds[of _ 0 n chunk_size]
    by (auto simp: sorted_wrt_append)
  moreover have "2 \<le> length (?r @ [n])" by (subst hd) simp
  moreover have "(?r @ [n]) ! 0 = 0" by (subst hd) simp
  ultimately show ?thesis using s by auto
qed

lemma consecutive_cover:
  fixes bs :: "int list"
  shows "sorted_wrt (<) bs \<Longrightarrow> bs \<noteq> [] \<Longrightarrow> hd bs \<le> x \<Longrightarrow> x < last bs \<Longrightarrow>
     \<exists>i. Suc i < length bs \<and> bs ! i \<le> x \<and> x < bs ! Suc i"
proof (induction bs)
  case Nil
  then show ?case by simp
next
  case (Cons b bs)
  show ?case
  proof (cases "bs = []")
    case True
    with Cons.prems show ?thesis by simp
  next
    case False
    show ?thesis
    proof (cases "x < hd bs")
      case True
      with False Cons.prems have "Suc 0 < length (b # bs) \<and> (b # bs) ! 0 \<le> x \<and> x < (b # bs) ! Suc 0"
        by (cases bs) auto
      then show ?thesis by blast
    next
      case nless: False
      from Cons.prems False have "sorted_wrt (<) bs" "x < last bs" by auto
      with Cons.IH False nless obtain i where "Suc i < length bs" "bs ! i \<le> x" "x < bs ! Suc i"
        by force
      then have "Suc (Suc i) < length (b # bs) \<and> (b # bs) ! Suc i \<le> x \<and> x < (b # bs) ! Suc (Suc i)"
        by simp
      then show ?thesis by blast
    qed
  qed
qed

lemma consecutive_increasing:
  fixes bs :: "int list"
  assumes "sorted_wrt (<) bs" and "Suc i < length bs"
  shows "bs ! i < bs ! Suc i"
  using assms by (simp add: sorted_wrt_nth_less)

lemma consecutive_disjoint:
  fixes bs :: "int list"
  assumes "sorted_wrt (<) bs" and "Suc i < length bs" and "Suc j < length bs" and "i \<noteq> j"
  shows "{bs ! i..<bs ! Suc i} \<inter> {bs ! j..<bs ! Suc j} = {}"
proof -
  have le: "bs ! Suc a \<le> bs ! b" if "a < b" "b < length bs" for a b
  proof (cases "Suc a = b")
    case True
    then show ?thesis by simp
  next
    case False
    with that have "Suc a < b" by simp
    with assms(1) that(2) have "bs ! Suc a < bs ! b" by (simp add: sorted_wrt_nth_less)
    then show ?thesis by simp
  qed
  from assms(4) consider "i < j" | "j < i" by linarith
  then show ?thesis
  proof cases
    case 1
    with le[of i j] assms(3) show ?thesis by auto
  next
    case 2
    with le[of j i] assms(2) show ?thesis by auto
  qed
qed

lemma consecutive_within:
  fixes bs :: "int list"
  assumes "sorted_wrt (<) bs" and "Suc i < length bs"
  shows "hd bs \<le> bs ! i \<and> bs ! Suc i \<le> last bs"
proof -
  have ne: "bs \<noteq> []" using assms(2) by auto
  have "bs ! 0 \<le> bs ! i"
    using assms by (cases "i = 0") (auto simp: sorted_wrt_nth_less less_imp_le)
  moreover have "bs ! Suc i \<le> bs ! (length bs - 1)"
    using assms by (cases "Suc i = length bs - 1") (auto simp: sorted_wrt_nth_less less_imp_le)
  ultimately show ?thesis using ne by (simp add: hd_conv_nth last_conv_nth)
qed

lemma length_grid: "length (concat (map (\<lambda>i. map (f i) [0..<nj]) [0..<ni])) = ni * nj"
  by (induction ni) simp_all

lemma nth_grid:
  "k < ni * nj \<Longrightarrow> concat (map (\<lambda>i. map (f i) [0..<nj]) [0..<ni]) ! k = f (k div nj) (k mod nj)"
proof (induction ni)
  case 0
  then show ?case by simp
next
  case (Suc ni)
  show ?case
  proof (cases "k < ni * nj")
    case True
    with Suc.IH show ?thesis by (simp add: nth_append length_grid)
  next
    case False
    then have ge: "ni * nj \<le> k" by simp
    from Suc.prems have lt: "k - ni * nj < nj" using ge by simp
    have d: "k div nj = ni"
      using ge Suc.prems by (intro div_nat_eqI) (simp_all add: mult.commute)
    have "k mod nj = k - ni * nj"
      using d by (simp add: modulo_nat_def)
    with d False lt show ?thesis by (simp add: nth_append length_grid)
  qed
qed

subsection \<open>The run's checks and chunks\<close>

lemma bind_err_Inr_iff: "bind_err m f = Inr r \<longleftrightarrow> (\<exists>v. m = Inr v \<and> f v = Inr r)"
  by (cases m) (simp_all add: bind_err_def)

lemma c_f2_make_chunks:
  "c \<in> set (make_chunks row_splits col_splits nd f2 rows cols method options) \<Longrightarrow> c_f2 c = f2"
  by (auto simp: make_chunks_def)

lemma iterables_Some:
  assumes "iterables src out_exists chunk_size overlap0 method options = Inr (Some chunks)"
  shows "\<exists>overlap s_nodata row_splits col_splits.
           method_checks method options overlap0 = Inr overlap
         \<and> r_nodata src = Some s_nodata
         \<and> \<not> out_exists
         \<and> int (nrows (r_band src)) > chunk_size \<and> int (ncols (r_band src)) > chunk_size
         \<and> splits (int (nrows (r_band src))) chunk_size = Inr row_splits
         \<and> splits (int (ncols (r_band src))) chunk_size = Inr col_splits
         \<and> chunks = make_chunks row_splits col_splits s_nodata (2 * overlap)
                      (int (nrows (r_band src))) (int (ncols (r_band src))) method options"
  using assms
  by (auto simp: iterables_def bind_err_Inr_iff Let_def split: option.splits if_splits)

lemma method_checks_filter:
  assumes "method = ''blur_gauss'' \<or> method = ''blur_mean'' \<or> method = ''clahe'' \<or> method = ''TPI''"
      and "options ''filter_size'' = Some fs"
      and "method_checks method options overlap0 = Inr overlap"
  shows "overlap = (if overlap0 < 2 * fs then 2 * fs else overlap0)"
  using assms
  by (auto simp: method_checks_def bind_err_Inr_iff check_overlap_def opt_def split: if_splits)

section \<open>The overlap in force\<close>

text \<open>
  Claim C8. For the methods \<open>blur_gauss\<close>, \<open>blur_mean\<close>, \<open>clahe\<close> and \<open>TPI\<close>, in
  every run that gets as far as building its chunks, the method checks return
  \<open>2 * filter_size\<close> as the overlap when the caller's overlap is below it and the
  caller's overlap otherwise, and every chunk carries \<open>f2\<close> = twice that overlap.
\<close>

theorem overlap_raised_for_filter_methods:
  assumes "method = ''blur_gauss'' \<or> method = ''blur_mean'' \<or> method = ''clahe'' \<or> method = ''TPI''"
      and "options ''filter_size'' = Some fs"
      and "iterables src out_exists chunk_size overlap method options = Inr (Some chunks)"
  shows "method_checks method options overlap = Inr (if overlap < 2 * fs then 2 * fs else overlap)
       \<and> (\<forall>c \<in> set chunks. c_f2 c = 2 * (if overlap < 2 * fs then 2 * fs else overlap))"
proof -
  from iterables_Some[OF assms(3)] obtain ov s_nodata row_splits col_splits where
    mc: "method_checks method options overlap = Inr ov" and
    ch: "chunks = make_chunks row_splits col_splits s_nodata (2 * ov)
                      (int (nrows (r_band src))) (int (ncols (r_band src))) method options"
    by blast
  have ov: "ov = (if overlap < 2 * fs then 2 * fs else overlap)"
    by (rule method_checks_filter[OF assms(1,2) mc])
  show ?thesis using mc ov ch by (auto dest: c_f2_make_chunks)
qed

lemma splits_3_2: "splits 3 2 = Inr [0, 2, 3]"
  by (simp add: splits_def py_range_def bind_err_def range_up.simps)

lemma ex_iterables:
  "iterables ex_raster3 False 2 1 ''blur_mean'' ex_opts
     = Inr (Some (make_chunks [0, 2, 3] [0, 2, 3] (- 9999) 4 3 3 ''blur_mean'' ex_opts))"
  by (simp add: iterables_def method_checks_def check_overlap_def opt_def ex_opts_def
        ex_raster3_def nrows_mk_array ncols_mk_array splits_3_2 bind_err_def)

theorem overlap_raised_witness:
  "ex_opts ''filter_size'' = Some 1
   \<and> method_checks ''blur_mean'' ex_opts 1 = Inr 2
   \<and> map c_f2 (make_chunks [0, 2, 3] [0, 2, 3] (- 9999 :: int) 4 3 3 ''blur_mean'' ex_opts) = [4, 4, 4, 4]
   \<and> method_checks ''blur_mean'' ex_opts 7 = Inr 7"
proof -
  have fs: "ex_opts ''filter_size'' = Some 1" by (simp add: ex_opts_def)
  have m: "''blur_mean'' = ''blur_gauss'' \<or> ''blur_mean'' = ''blur_mean'' \<or> ''blur_mean'' = ''clahe'' \<or> ''blur_mean'' = ''TPI''"
    by simp
  have len: "map c_f2 (make_chunks [0, 2, 3] [0, 2, 3] (- 9999 :: int) 4 3 3 ''blur_mean'' ex_opts) = [4, 4, 4, 4]"
    by (simp add: make_chunks_def upt_conv_Cons)
  have big: "method_checks ''blur_mean'' ex_opts 7 = Inr 7"
    by (simp add: method_checks_def check_overlap_def opt_def ex_opts_def bind_err_def)
  from overlap_raised_for_filter_methods[OF m fs ex_iterables] fs len big
  show ?thesis by simp
qed

section \<open>Rasters that fit in one chunk\<close>

text \<open>
  Claim C5 (the code does not do what the claim says). A 3 by 3 raster with chunk
  size 4 takes the \<open>else: pass\<close> branch of line 705: the run returns without error
  and the target, created with the source's dimensions, has no cell written. This holds
  for any kernels \<open>ks\<close>.
\<close>

theorem small_raster_is_never_written:
  "ParallelRCP ks ex_raster3 False 4 1 ''blur_mean'' ex_opts
     = Inr \<lparr>nrows = 3, ncols = 3,
            rowdata = [[None, None, None], [None, None, None], [None, None, None]]\<rparr>"
  by (simp add: ParallelRCP_def iterables_def method_checks_def check_overlap_def opt_def
        ex_opts_def ex_raster3_def bind_err_def mk_array_def upt_conv_Cons)

section \<open>The read window at the raster's edges\<close>

lemma splits_5_4: "splits 5 4 = Inr [0, 4, 5]"
  by (simp add: splits_def py_range_def bind_err_def range_up.simps)

lemma str_nat_0: "str_nat 0 = ''0''"
  by (simp add: str_nat.simps)

text \<open>
  Claim C3 (the code does not do what the claim says). A 5 by 5 raster with chunk
  size 4 and overlap 1 (\<open>f2 = 2\<close>): the first chunk spans \<open>[0,4)\<close> on both axes. Its
  window is "under" on each axis, so the "over" test of the \<open>elif\<close> is never made;
  the resolved read window is 6 by 6 at offset \<open>(0, 0)\<close>, which is not inside the
  raster, and the read, the tile and the run fail.
\<close>

theorem first_tile_window_out_of_bounds:
  "iterables ex_raster5 False 4 1 ''mdenoise'' ex_md_opts
     = Inr (Some (make_chunks [0, 4, 5] [0, 4, 5] (- 9999) 2 5 5 ''mdenoise'' ex_md_opts))
   \<and> make_chunks [0, 4, 5] [0, 4, 5] (- 9999) 2 5 5 ''mdenoise'' ex_md_opts ! 0 = ex_chunk5
   \<and> g_read_x_off (super_array_calc 0 0 4 4 2 5 5) = 0
   \<and> g_read_x_size (super_array_calc 0 0 4 4 2 5 5) = 6
   \<and> g_read_y_off (super_array_calc 0 0 4 4 2 5 5) = 0
   \<and> g_read_y_size (super_array_calc 0 0 4 4 2 5 5) = 6
   \<and> \<not> window_in_bounds (r_band ex_raster5) 0 0 6 6
   \<and> populate (r_band ex_raster5) ex_chunk5 = Inl RuntimeError
   \<and> ParallelRCP id_kernels ex_raster5 False 4 1 ''mdenoise'' ex_md_opts = Inl RuntimeError"
  by (simp add: iterables_def method_checks_def ex_md_opts_def ex_raster5_def
        nrows_mk_array ncols_mk_array splits_5_4 bind_err_def make_chunks_def upt_conv_Cons
        ex_chunk5_def str_nat_0 super_array_calc_def chunk_geometry_def window_in_bounds_def populate_def
        ReadAsArray_def ParallelRCP_def ProcessSuperArray_def)

section \<open>mdenoise: the all-no-data shortcut and the temporary files\<close>

text \<open>
  Claim C6 (the code does not do what the claim says). The shortcut of line 203 tests
  the mean of the array, not its cells. With no-data value 0, the grid \<open>[[-1, 1]]\<close> has
  mean 0: \<open>mdenoise\<close> returns it unchanged and leaves the world as it was, so the
  executable is not started, although no cell of the grid equals the no-data value.
\<close>

theorem mdenoise_skips_on_mean:
  "mean ex_grid = Some 0
   \<and> cell ex_grid 0 0 = - 1
   \<and> cell ex_grid 0 1 = 1
   \<and> mdenoise exe temp_dir pid 0 ex_grid t n v tile w = (Inr ex_grid, w)"
  by (simp add: mdenoise_def mean_def ex_grid_def size_of_def cell_def)

text \<open>
  Claim C9, as stated, fails: when the executable exits with a non-zero code,
  \<open>mdenoise\<close> raises \<open>CalledProcessError\<close> and the source file it wrote is still in
  the temporary directory.
\<close>

theorem mdenoise_failure_leaves_temp_file:
  "fst (mdenoise exe_fail ''/tmp'' 7 (- 9999) ex_grid 1 1 1 (Some ''0-0'') ex_world)
     = Inl CalledProcessError
   \<and> w_files (snd (mdenoise exe_fail ''/tmp'' 7 (- 9999) ex_grid 1 1 1 (Some ''0-0'') ex_world))
       ''/tmp/mesh_source_0-0.asc'' = Some ex_grid"
  by (simp add: mdenoise_def mean_def ex_grid_def size_of_def temp_paths_def path_join_def
        exe_fail_def ex_world_def)

text \<open>
  Claim C9, amended. When \<open>mdenoise\<close> makes the external call and returns an array
  (the executable exited with 0 and its output file could be read), and the executable
  has left the source file in place, then neither temporary file exists when
  \<open>mdenoise\<close> returns, and the executable was started once.
\<close>

theorem mdenoise_success_removes_temp_files:
  assumes "mean in_array \<noteq> Some s_nodata"
      and "mdenoise exe temp_dir pid s_nodata in_array t n v tile w = (Inr out, w')"
      and "temp_paths temp_dir pid tile = (temp_s_path, temp_t_path)"
      and "exe t n v temp_s_path temp_t_path ((w_files w)(temp_s_path \<mapsto> in_array))
             = (exit_code, left)"
      and "left temp_s_path \<noteq> None"
  shows "w_files w' temp_s_path = None \<and> w_files w' temp_t_path = None
       \<and> w_exe_calls w' = w_exe_calls w + 1"
  using assms
  by (auto simp: mdenoise_def Let_def remove_temp_def split: prod.splits if_splits option.splits)

theorem mdenoise_success_witness:
  "mean ex_grid \<noteq> Some (- 9999)
   \<and> temp_paths ''/tmp'' 7 (Some ''0-0'')
       = (''/tmp/mesh_source_0-0.asc'', ''/tmp/mesh_target_0-0.asc'')
   \<and> mdenoise exe_copy ''/tmp'' 7 (- 9999) ex_grid 1 1 1 (Some ''0-0'') ex_world
       = (Inr ex_grid, \<lparr>w_files = Map.empty, w_exe_calls = 1\<rparr>)"
proof -
  have m: "mean ex_grid \<noteq> Some (- 9999)"
    by (simp add: mean_def ex_grid_def size_of_def)
  have p: "temp_paths ''/tmp'' 7 (Some ''0-0'')
             = (''/tmp/mesh_source_0-0.asc'', ''/tmp/mesh_target_0-0.asc'')"
    by (simp add: temp_paths_def path_join_def)
  have run: "mdenoise exe_copy ''/tmp'' 7 (- 9999) ex_grid 1 1 1 (Some ''0-0'') ex_world
       = (Inr ex_grid, \<lparr>w_files = Map.empty, w_exe_calls = 1\<rparr>)"
    using m by (auto simp add: mdenoise_def p exe_copy_def ex_world_def remove_temp_def)
  have ex: "exe_copy 1 1 1 ''/tmp/mesh_source_0-0.asc'' ''/tmp/mesh_target_0-0.asc''
              ((w_files ex_world)(''/tmp/mesh_source_0-0.asc'' \<mapsto> ex_grid))
            = (0, [''/tmp/mesh_source_0-0.asc'' \<mapsto> ex_grid,
                   ''/tmp/mesh_target_0-0.asc'' \<mapsto> ex_grid])"
    by (simp add: exe_copy_def ex_world_def)
  have left: "[''/tmp/mesh_source_0-0.asc'' \<mapsto> ex_grid,
               ''/tmp/mesh_target_0-0.asc'' \<mapsto> ex_grid] ''/tmp/mesh_source_0-0.asc'' \<noteq> None"
    by simp
  from mdenoise_success_removes_temp_files[OF m run p ex left] m run p show ?thesis by simp
qed

subsection \<open>Slices, reads and the paste\<close>

lemma nat_halo_diff: "0 \<le> (f::int) \<Longrightarrow> 0 < y \<Longrightarrow> nat (y + f) = nat (y + 2 * f) - nat f"
  by linarith

lemma slice_bound_nonneg: "0 \<le> i \<Longrightarrow> slice_bound i n = min (nat i) n"
  by (simp add: slice_bound_def)

lemma slice_bound_neg: "i < 0 \<Longrightarrow> slice_bound i n = nat (i + int n)"
  by (simp add: slice_bound_def max_def)

lemma setitem_Inr:
  assumes "setitem a ys xs v = Inr r"
  shows "nrows r = nrows a \<and> ncols r = ncols a \<and>
         (\<forall>i<nrows a. \<forall>j<ncols a. cell r i j =
            (if slice_lo ys (nrows a) \<le> i \<and> i < slice_lo ys (nrows a) + slice_len ys (nrows a) \<and>
                slice_lo xs (ncols a) \<le> j \<and> j < slice_lo xs (ncols a) + slice_len xs (ncols a)
             then cell v (if nrows v = 1 then 0 else i - slice_lo ys (nrows a))
                         (if ncols v = 1 then 0 else j - slice_lo xs (ncols a))
             else cell a i j))"
  using assms
  by (auto simp: setitem_def Let_def nrows_mk_array ncols_mk_array cell_mk_array split: if_splits)

lemma setitem_same_shape:
  assumes "nrows v = slice_len ys (nrows a)" and "ncols v = slice_len xs (ncols a)"
  shows "\<exists>r. setitem a ys xs v = Inr r"
  using assms by (simp add: setitem_def Let_def)

lemma ReadAsArray_Inr:
  assumes "ReadAsArray band xoff yoff xsize ysize = Inr r" and "0 \<le> xoff" and "0 \<le> yoff"
  shows "nrows r = nat ysize \<and> ncols r = nat xsize \<and>
         (\<forall>i<nat ysize. \<forall>j<nat xsize. cell r i j = cell band (nat yoff + i) (nat xoff + j))"
  using assms
  by (auto simp: ReadAsArray_def nrows_mk_array ncols_mk_array cell_mk_array split: if_splits)

lemma ReadAsArray_in_bounds:
  assumes "window_in_bounds band xoff yoff xsize ysize" and "0 \<le> xsize" and "0 \<le> ysize"
  shows "\<exists>r. ReadAsArray band xoff yoff xsize ysize = Inr r"
  using assms by (simp add: ReadAsArray_def)

lemma ReadAsArray_Inr_bounds:
  assumes "ReadAsArray band xoff yoff xsize ysize = Inr r" and "1 \<le> xsize" and "1 \<le> ysize"
  shows "window_in_bounds band xoff yoff xsize ysize"
  using assms by (auto simp: ReadAsArray_def split: if_splits)

lemma np_full_Inr:
  assumes "np_full y_size x_size v = Inr r"
  shows "0 \<le> y_size \<and> 0 \<le> x_size \<and> nrows r = nat y_size \<and> ncols r = nat x_size \<and>
         (\<forall>i<nat y_size. \<forall>j<nat x_size. cell r i j = v)"
  using assms
  by (auto simp: np_full_def nrows_mk_array ncols_mk_array cell_mk_array split: if_splits)

text \<open>The geometry of a chunk at the top-left corner.\<close>

lemma calc_top_left:
  assumes "0 \<le> f2" and "0 < x_end" and "0 < y_end"
      and "x_end \<le> cols \<or> 0 < f2" and "y_end \<le> rows \<or> 0 < f2"
  shows "super_array_calc 0 0 x_end y_end f2 rows cols =
           \<lparr>g_x_size = x_end + 2 * f2, g_y_size = y_end + 2 * f2,
            g_read_x_off = 0, g_read_y_off = 0,
            g_read_x_size = x_end + f2, g_read_y_size = y_end + f2,
            g_sa_x_start = f2, g_sa_x_end = x_end + 2 * f2,
            g_sa_y_start = f2, g_sa_y_end = y_end + 2 * f2\<rparr>"
  using assms by (auto simp: super_array_calc_def Let_def)

lemma calc_top_left_over_x:
  assumes "cols < x_end"
  shows "g_read_x_off (super_array_calc 0 0 x_end y_end 0 rows cols) = 0
       \<and> g_read_x_size (super_array_calc 0 0 x_end y_end 0 rows cols) = x_end
       \<and> g_read_y_off (super_array_calc 0 0 x_end y_end 0 rows cols) = 0
       \<and> g_read_y_size (super_array_calc 0 0 x_end y_end 0 rows cols) = y_end"
  using assms by (auto simp: super_array_calc_def Let_def)

lemma calc_top_left_over_y:
  assumes "rows < y_end"
  shows "g_read_x_off (super_array_calc 0 0 x_end y_end 0 rows cols) = 0
       \<and> g_read_x_size (super_array_calc 0 0 x_end y_end 0 rows cols) = x_end
       \<and> g_read_y_off (super_array_calc 0 0 x_end y_end 0 rows cols) = 0
       \<and> g_read_y_size (super_array_calc 0 0 x_end y_end 0 rows cols) = y_end"
  using assms by (auto simp: super_array_calc_def Let_def)

lemma populate_Inr:
  assumes "populate band c = Inr sa"
  shows "\<exists>read_array super_array0.
     ReadAsArray band (g_read_x_off (chunk_geometry c)) (g_read_y_off (chunk_geometry c))
        (g_read_x_size (chunk_geometry c)) (g_read_y_size (chunk_geometry c)) = Inr read_array
   \<and> np_full (g_y_size (chunk_geometry c)) (g_x_size (chunk_geometry c)) (c_s_nodata c)
        = Inr super_array0
   \<and> setitem super_array0 (g_sa_y_start (chunk_geometry c), g_sa_y_end (chunk_geometry c))
        (g_sa_x_start (chunk_geometry c), g_sa_x_end (chunk_geometry c)) read_array = Inr sa"
  using assms by (simp add: populate_def Let_def bind_err_Inr_iff)

lemma populate_shape:
  assumes "populate band c = Inr sa"
  shows "int (nrows sa) = g_y_size (chunk_geometry c) \<and> int (ncols sa) = g_x_size (chunk_geometry c)"
proof -
  from populate_Inr[OF assms] obtain ra s0 where
    f: "np_full (g_y_size (chunk_geometry c)) (g_x_size (chunk_geometry c)) (c_s_nodata c) = Inr s0"
    and s: "setitem s0 (g_sa_y_start (chunk_geometry c), g_sa_y_end (chunk_geometry c))
        (g_sa_x_start (chunk_geometry c), g_sa_x_end (chunk_geometry c)) ra = Inr sa"
    by blast
  from np_full_Inr[OF f] setitem_Inr[OF s] show ?thesis by simp
qed

section \<open>The tile at the top-left corner\<close>

text \<open>
  Claim C2. For a chunk that starts at \<open>(0, 0)\<close> with halo \<open>f2\<close> (not negative) on a
  raster of the chunk's \<open>rows\<close> and \<open>cols\<close>: when the window \<open>[0, x_end + f2)\<close> by
  \<open>[0, y_end + f2)\<close> is inside the raster the population of the super array
  succeeds; and whenever it succeeds, the buffer has the padded shape, its first
  \<open>f2\<close> rows and first \<open>f2\<close> columns hold the no-data value, and every other cell
  \<open>(i, j)\<close> holds the source cell \<open>(i - f2, j - f2)\<close>.
\<close>

theorem top_left_tile_population:
  assumes "c_x_start c = 0" and "c_y_start c = 0" and "0 \<le> c_f2 c"
      and "0 < c_x_end c" and "0 < c_y_end c"
      and "c_cols c = int (ncols band)" and "c_rows c = int (nrows band)"
  shows "(c_x_end c + c_f2 c \<le> int (ncols band) \<and> c_y_end c + c_f2 c \<le> int (nrows band)
            \<longrightarrow> (\<exists>sa. populate band c = Inr sa))
       \<and> (\<forall>sa. populate band c = Inr sa \<longrightarrow>
             nrows sa = nat (c_y_end c + 2 * c_f2 c) \<and> ncols sa = nat (c_x_end c + 2 * c_f2 c)
           \<and> (\<forall>i<nrows sa. \<forall>j<ncols sa.
                 cell sa i j =
                   (if i < nat (c_f2 c) \<or> j < nat (c_f2 c) then c_s_nodata c
                    else cell band (i - nat (c_f2 c)) (j - nat (c_f2 c)))))"
proof (intro conjI impI allI)
  assume inb: "c_x_end c + c_f2 c \<le> int (ncols band) \<and> c_y_end c + c_f2 c \<le> int (nrows band)"
  have g: "chunk_geometry c =
           \<lparr>g_x_size = c_x_end c + 2 * c_f2 c, g_y_size = c_y_end c + 2 * c_f2 c,
            g_read_x_off = 0, g_read_y_off = 0,
            g_read_x_size = c_x_end c + c_f2 c, g_read_y_size = c_y_end c + c_f2 c,
            g_sa_x_start = c_f2 c, g_sa_x_end = c_x_end c + 2 * c_f2 c,
            g_sa_y_start = c_f2 c, g_sa_y_end = c_y_end c + 2 * c_f2 c\<rparr>"
    unfolding chunk_geometry_def assms(1,2)
    by (rule calc_top_left) (use assms inb in auto)
  have e: "nat (c_y_end c + c_f2 c) = nat (c_y_end c + 2 * c_f2 c) - nat (c_f2 c)"
          "nat (c_x_end c + c_f2 c) = nat (c_x_end c + 2 * c_f2 c) - nat (c_f2 c)"
    using assms(3,4,5) by linarith+
  show "\<exists>sa. populate band c = Inr sa"
    using assms inb e
    by (simp add: populate_def g Let_def bind_err_def ReadAsArray_def window_in_bounds_def
          np_full_def setitem_def nrows_mk_array ncols_mk_array slice_len_def slice_lo_def
          slice_bound_def)
next
  fix sa
  assume p: "populate band c = Inr sa"
  from populate_Inr[OF p] obtain ra s0 where
    r: "ReadAsArray band (g_read_x_off (chunk_geometry c)) (g_read_y_off (chunk_geometry c))
        (g_read_x_size (chunk_geometry c)) (g_read_y_size (chunk_geometry c)) = Inr ra"
    and f: "np_full (g_y_size (chunk_geometry c)) (g_x_size (chunk_geometry c)) (c_s_nodata c) = Inr s0"
    and s: "setitem s0 (g_sa_y_start (chunk_geometry c), g_sa_y_end (chunk_geometry c))
        (g_sa_x_start (chunk_geometry c), g_sa_x_end (chunk_geometry c)) ra = Inr sa"
    by blast
  have ok: "(c_x_end c \<le> c_cols c \<or> 0 < c_f2 c) \<and> (c_y_end c \<le> c_rows c \<or> 0 < c_f2 c)"
  proof (rule ccontr)
    assume "\<not> ?thesis"
    then have z: "c_f2 c = 0" and over: "c_cols c < c_x_end c \<or> c_rows c < c_y_end c"
      using assms(3) by auto
    from over have "g_read_x_off (chunk_geometry c) = 0 \<and> g_read_x_size (chunk_geometry c) = c_x_end c
       \<and> g_read_y_off (chunk_geometry c) = 0 \<and> g_read_y_size (chunk_geometry c) = c_y_end c"
      unfolding chunk_geometry_def assms(1,2) z
      using calc_top_left_over_x calc_top_left_over_y by blast
    with r have "ReadAsArray band 0 0 (c_x_end c) (c_y_end c) = Inr ra" by simp
    from ReadAsArray_Inr_bounds[OF this] assms(4,5)
    have "window_in_bounds band 0 0 (c_x_end c) (c_y_end c)" by simp
    with over assms(6,7) show False by (simp add: window_in_bounds_def)
  qed
  have g: "chunk_geometry c =
           \<lparr>g_x_size = c_x_end c + 2 * c_f2 c, g_y_size = c_y_end c + 2 * c_f2 c,
            g_read_x_off = 0, g_read_y_off = 0,
            g_read_x_size = c_x_end c + c_f2 c, g_read_y_size = c_y_end c + c_f2 c,
            g_sa_x_start = c_f2 c, g_sa_x_end = c_x_end c + 2 * c_f2 c,
            g_sa_y_start = c_f2 c, g_sa_y_end = c_y_end c + 2 * c_f2 c\<rparr>"
    unfolding chunk_geometry_def assms(1,2)
    by (rule calc_top_left) (use assms ok in auto)
  from r have r': "ReadAsArray band 0 0 (c_x_end c + c_f2 c) (c_y_end c + c_f2 c) = Inr ra"
    by (simp add: g)
  from f have f': "np_full (c_y_end c + 2 * c_f2 c) (c_x_end c + 2 * c_f2 c) (c_s_nodata c) = Inr s0"
    by (simp add: g)
  from s have s': "setitem s0 (c_f2 c, c_y_end c + 2 * c_f2 c) (c_f2 c, c_x_end c + 2 * c_f2 c) ra = Inr sa"
    by (simp add: g)
  note R = ReadAsArray_Inr[OF r']
  note F = np_full_Inr[OF f']
  note S = setitem_Inr[OF s']
  have lo: "slice_lo (c_f2 c, c_y_end c + 2 * c_f2 c) (nrows s0) = nat (c_f2 c)"
           "slice_lo (c_f2 c, c_x_end c + 2 * c_f2 c) (ncols s0) = nat (c_f2 c)"
    using F assms(3,4,5) by (simp_all add: slice_lo_def slice_bound_def)
  have len: "slice_len (c_f2 c, c_y_end c + 2 * c_f2 c) (nrows s0) = nat (c_y_end c + c_f2 c)"
            "slice_len (c_f2 c, c_x_end c + 2 * c_f2 c) (ncols s0) = nat (c_x_end c + c_f2 c)"
    using F assms(3,4,5) by (simp_all add: slice_len_def slice_bound_def)
  show "nrows sa = nat (c_y_end c + 2 * c_f2 c)" using S F by simp
  show "ncols sa = nat (c_x_end c + 2 * c_f2 c)" using S F by simp
  fix i j
  assume i: "i < nrows sa" and j: "j < ncols sa"
  have ij: "i < nrows s0" "j < ncols s0" using i j S by simp_all
  show "cell sa i j = (if i < nat (c_f2 c) \<or> j < nat (c_f2 c) then c_s_nodata c
                    else cell band (i - nat (c_f2 c)) (j - nat (c_f2 c)))"
  proof (cases "i < nat (c_f2 c) \<or> j < nat (c_f2 c)")
    case True
    then have "cell sa i j = cell s0 i j" using S ij lo by auto
    also have "\<dots> = c_s_nodata c" using F ij by simp
    finally show ?thesis using True by simp
  next
    case False
    then have ge: "nat (c_f2 c) \<le> i" "nat (c_f2 c) \<le> j" by simp_all
    have ub: "i - nat (c_f2 c) < nat (c_y_end c + c_f2 c)" "j - nat (c_f2 c) < nat (c_x_end c + c_f2 c)"
      using ij F ge assms(3,4,5) by auto
    have one_r: "nrows ra = 1 \<Longrightarrow> i - nat (c_f2 c) = 0" using R ub by simp
    have one_c: "ncols ra = 1 \<Longrightarrow> j - nat (c_f2 c) = 0" using R ub by simp
    have inreg: "nat (c_f2 c) \<le> i \<and> i < nat (c_f2 c) + nat (c_y_end c + c_f2 c) \<and>
                 nat (c_f2 c) \<le> j \<and> j < nat (c_f2 c) + nat (c_x_end c + c_f2 c)"
      using ge ub by linarith
    have idx: "(if nrows ra = 1 then 0 else i - nat (c_f2 c)) = i - nat (c_f2 c)"
              "(if ncols ra = 1 then 0 else j - nat (c_f2 c)) = j - nat (c_f2 c)"
      using one_r one_c by simp_all
    note c = S[THEN conjunct2, THEN conjunct2, rule_format, OF ij]
    have "cell sa i j = cell ra (i - nat (c_f2 c)) (j - nat (c_f2 c))"
      unfolding c lo len idx using inreg by simp
    also have "\<dots> = cell band (i - nat (c_f2 c)) (j - nat (c_f2 c))"
      using R ub by simp
    finally show ?thesis using False by simp
  qed
qed

lemma ex_populate4:
  "populate (r_band ex_raster4) ex_chunk4 =
     Inr \<lparr>nrows = 6, ncols = 6,
          rowdata = [[- 9999, - 9999, - 9999, - 9999, - 9999, - 9999],
                     [- 9999, - 9999, - 9999, - 9999, - 9999, - 9999],
                     [- 9999, - 9999, 0, 1, 2, 3],
                     [- 9999, - 9999, 4, 5, 6, 7],
                     [- 9999, - 9999, 8, 9, 10, 11],
                     [- 9999, - 9999, 12, 13, 14, 15]]\<rparr>"
  by code_simp

theorem top_left_tile_population_witness:
  "c_x_start ex_chunk4 = 0 \<and> c_y_start ex_chunk4 = 0 \<and> 0 \<le> c_f2 ex_chunk4
   \<and> 0 < c_x_end ex_chunk4 \<and> 0 < c_y_end ex_chunk4
   \<and> c_cols ex_chunk4 = int (ncols (r_band ex_raster4))
   \<and> c_rows ex_chunk4 = int (nrows (r_band ex_raster4))
   \<and> populate (r_band ex_raster4) ex_chunk4 =
     Inr \<lparr>nrows = 6, ncols = 6,
          rowdata = [[- 9999, - 9999, - 9999, - 9999, - 9999, - 9999],
                     [- 9999, - 9999, - 9999, - 9999, - 9999, - 9999],
                     [- 9999, - 9999, 0, 1, 2, 3],
                     [- 9999, - 9999, 4, 5, 6, 7],
                     [- 9999, - 9999, 8, 9, 10, 11],
                     [- 9999, - 9999, 12, 13, 14, 15]]\<rparr>"
proof -
  have h: "c_x_start ex_chunk4 = 0" "c_y_start ex_chunk4 = 0" "0 \<le> c_f2 ex_chunk4"
     "0 < c_x_end ex_chunk4" "0 < c_y_end ex_chunk4"
     "c_cols ex_chunk4 = int (ncols (r_band ex_raster4))"
     "c_rows ex_chunk4 = int (nrows (r_band ex_raster4))"
    by (simp_all add: ex_chunk4_def ex_raster4_def ncols_mk_array nrows_mk_array)
  note t = top_left_tile_population[OF h]
  from t have "\<exists>sa. populate (r_band ex_raster4) ex_chunk4 = Inr sa"
    by (simp add: ex_chunk4_def ex_raster4_def ncols_mk_array nrows_mk_array)
  with h ex_populate4 show ?thesis by simp
qed

subsection \<open>Trim, write and the steps of a tile\<close>

lemma geometry_sizes:
  "g_x_size (chunk_geometry c) = c_x_end c - c_x_start c + 2 * c_f2 c"
  "g_y_size (chunk_geometry c) = c_y_end c - c_y_start c + 2 * c_f2 c"
  by (simp_all add: chunk_geometry_def super_array_calc_def Let_def split: prod.splits)

lemma trim_zero: "nrows (trim 0 a) = 0 \<and> ncols (trim 0 a) = 0"
  by (simp add: nrows_trim ncols_trim slice_len_def slice_bound_def)

lemma slice_len_halo:
  assumes "0 < f2" and "0 \<le> h" and "int n = h + 2 * f2"
  shows "slice_len (f2, -1 * f2) n = nat h" and "slice_lo (f2, -1 * f2) n = nat f2"
proof -
  have a: "slice_bound f2 n = nat f2"
    using assms by (auto simp: slice_bound_def min_def)
  have b: "slice_bound (- f2) n = nat (h + f2)"
    using assms by (auto simp: slice_bound_def max_def)
  have c: "nat (h + f2) - nat f2 = nat h"
    using assms by linarith
  show "slice_len (f2, -1 * f2) n = nat h" by (simp add: slice_len_def a b c)
  show "slice_lo (f2, -1 * f2) n = nat f2" by (simp add: slice_lo_def a)
qed

lemma cell_trim:
  assumes "i < nrows (trim f2 a)" and "j < ncols (trim f2 a)"
  shows "cell (trim f2 a) i j =
           cell a (slice_lo (f2, -1 * f2) (nrows a) + i) (slice_lo (f2, -1 * f2) (ncols a) + j)"
  using assms by (simp add: trim_def getitem_def nrows_mk_array ncols_mk_array cell_mk_array)

lemma WriteArray_Inr:
  assumes "WriteArray t arr xoff yoff = Inr t'"
  shows "nrows t' = nrows t \<and> ncols t' = ncols t \<and>
         int (ncols arr) + xoff \<le> int (ncols t) \<and> int (nrows arr) + yoff \<le> int (nrows t) \<and>
         (\<forall>i<nrows t. \<forall>j<ncols t. cell t' i j =
            (if 0 < nrows arr \<and> 0 < ncols arr \<and>
                nat yoff \<le> i \<and> i < nat yoff + nrows arr \<and>
                nat xoff \<le> j \<and> j < nat xoff + ncols arr
             then Some (cell arr (i - nat yoff) (j - nat xoff)) else cell t i j))"
  using assms
  by (auto simp: WriteArray_def nrows_mk_array ncols_mk_array cell_mk_array split: if_splits)

lemma WriteArray_empty:
  assumes "WriteArray t arr xoff yoff = Inr t'" and "nrows arr = 0 \<or> ncols arr = 0"
  shows "t' = t"
  using assms by (auto simp: WriteArray_def split: if_splits)

lemma putmask_Inr_shape:
  assumes "putmask a msk v = Inr r"
  shows "nrows r = nrows a \<and> ncols r = ncols a"
  using assms by (auto simp: putmask_def nrows_mk_array ncols_mk_array split: if_splits)

lemma restore_mask_Inr_shape:
  assumes "restore_mask f2 nd sa new = Inr temp"
  shows "nrows temp = nrows (trim f2 new) \<and> ncols temp = ncols (trim f2 new)"
  using assms putmask_Inr_shape by (fastforce simp: restore_mask_def Let_def)

lemma ProcessSuperArray_Inr:
  assumes "ProcessSuperArray ks band c t = Inr t'"
  shows "\<exists>super_array new_data temp_array.
           populate band c = Inr super_array
         \<and> run_method ks (c_method c) (c_options c) (c_tile c) super_array = Inr new_data
         \<and> restore_mask (c_f2 c) (c_s_nodata c) super_array new_data = Inr temp_array
         \<and> WriteArray t temp_array (c_x_start c) (c_y_start c) = Inr t'"
  using assms by (simp add: ProcessSuperArray_def bind_err_Inr_iff)

section \<open>An operation that does not keep the padded shape\<close>

text \<open>
  Claim C7, as stated, fails: the source never compares the shape of the operation's
  result with the shape of the super array. For the first chunk of the 4 by 4 raster
  (padded shape 6 by 6) and a kernel that returns a 5 by 8 array, the trimmed result is
  1 by 4, which has as many cells as the 2 by 2 mask, so \<open>np.putmask\<close> accepts it, and
  the 1 by 4 block is written at \<open>(0, 0)\<close>: the tile succeeds with a row of four cells
  written where a 2 by 2 block belongs.
\<close>

theorem mismatched_shape_is_written:
  "nrows (mk_array 5 8 (\<lambda>i j. 7 :: int)) = 5 \<and> ncols (mk_array 5 8 (\<lambda>i j. 7 :: int)) = 8
   \<and> ProcessSuperArray wide_kernels (r_band ex_raster4) ex_chunk4 (mk_array 4 4 (\<lambda>i j. None))
     = Inr \<lparr>nrows = 4, ncols = 4,
            rowdata = [[Some 7, Some 7, Some 7, Some 7],
                       [None, None, None, None],
                       [None, None, None, None],
                       [None, None, None, None]]\<rparr>"
  by code_simp


text \<open>
  Claim C7, amended. If the operation's result, trimmed by \<open>f2\<close> on each side, does not
  have as many cells as the trimmed super array, the mask step raises \<open>ValueError\<close>
  and the tile fails; the write, which comes after the mask step, is not reached.
\<close>

theorem mismatched_cell_count_fails_before_write:
  assumes "populate band c = Inr super_array"
      and "run_method ks (c_method c) (c_options c) (c_tile c) super_array = Inr new_data"
      and "size_of (trim (c_f2 c) new_data) \<noteq> size_of (trim (c_f2 c) super_array)"
  shows "restore_mask (c_f2 c) (c_s_nodata c) super_array new_data = Inl ValueError
       \<and> ProcessSuperArray ks band c t_band = Inl ValueError"
proof -
  have "size_of (eq_scalar (trim (c_f2 c) super_array) (c_s_nodata c)) = size_of (trim (c_f2 c) super_array)"
    by (simp add: size_of_def eq_scalar_def nrows_mk_array ncols_mk_array)
  with assms(3) have r: "restore_mask (c_f2 c) (c_s_nodata c) super_array new_data = Inl ValueError"
    by (simp add: restore_mask_def Let_def putmask_def)
  with assms(1,2) show ?thesis by (simp add: ProcessSuperArray_def bind_err_def)
qed

lemma ex_run_tall:
  "run_method tall_kernels (c_method ex_chunk4) (c_options ex_chunk4) (c_tile ex_chunk4) sa
     = Inr (mk_array 7 6 (\<lambda>i j. 7))"
  by (simp add: run_method_def tall_kernels_def id_kernels_def ex_chunk4_def ex_md_opts_def
        opt_def bind_err_def)

theorem mismatched_cell_count_witness:
  "size_of (trim (c_f2 ex_chunk4) (mk_array 7 6 (\<lambda>i j. 7 :: int))) = 6
   \<and> ProcessSuperArray tall_kernels (r_band ex_raster4) ex_chunk4 (mk_array 4 4 (\<lambda>i j. None))
       = Inl ValueError"
proof -
  have s1: "size_of (trim (c_f2 ex_chunk4) (mk_array 7 6 (\<lambda>i j. 7 :: int))) = 6"
    by (simp add: size_of_def nrows_trim ncols_trim nrows_mk_array ncols_mk_array
          ex_chunk4_def slice_len_def slice_bound_def)
  obtain sa where p: "populate (r_band ex_raster4) ex_chunk4 = Inr sa"
      and sz: "size_of (trim (c_f2 ex_chunk4) sa) = 4"
    using ex_populate4
    by (simp add: size_of_def nrows_trim ncols_trim ex_chunk4_def slice_len_def slice_bound_def)
  have ne: "size_of (trim (c_f2 ex_chunk4) (mk_array 7 6 (\<lambda>i j. 7 :: int)))
              \<noteq> size_of (trim (c_f2 ex_chunk4) sa)"
    using s1 sz by simp
  from mismatched_cell_count_fails_before_write[OF p ex_run_tall ne] s1
  show ?thesis by simp
qed

end
